theory Spec2Isabelle
  imports Complex_Main
begin

section \<open>JavaScript values as the skill handler uses them\<close>

text \<open>
  The skill (\<^verbatim>\<open>src/index.js\<close>) is plain sloppy-mode JavaScript. Only the part of the
  language its handlers touch is modelled: the value \<^verbatim>\<open>undefined\<close>, strings, plain objects
  and function values, truthiness, string conversion inside \<^verbatim>\<open>+\<close>, property reads (which
  throw on \<^verbatim>\<open>undefined\<close>) and identifier lookup (which throws on an undeclared name).
\<close>

datatype jsval =
    Undefined
  | Str string
  | Obj "(string \<times> jsval) list"
  | Closure string

datatype js_error =
    ReferenceError string
  | TypeError string

text \<open>\<^verbatim>\<open>if (v)\<close>, \<^verbatim>\<open>!v\<close>, \<^verbatim>\<open>v ? a : b\<close>: the empty string and \<^verbatim>\<open>undefined\<close> are falsy.\<close>

fun truthy :: "jsval \<Rightarrow> bool" where
  "truthy Undefined = False"
| "truthy (Str s) = (s \<noteq> [])"
| "truthy (Obj ps) = True"
| "truthy (Closure f) = True"

text \<open>The string a value turns into when it is an operand of \<^verbatim>\<open>"..." + v\<close>.\<close>

fun to_string :: "jsval \<Rightarrow> string" where
  "to_string Undefined = ''undefined''"
| "to_string (Str s) = s"
| "to_string (Obj ps) = ''[object Object]''"
| "to_string (Closure f) = ''function '' @ f @ ''() { [code] }''"

text \<open>
  \<^verbatim>\<open>v.p\<close>. Reading a property of \<^verbatim>\<open>undefined\<close> throws a TypeError. A string primitive
  has no own property called \<^verbatim>\<open>error\<close> or \<^verbatim>\<open>city\<close> (the only two names the handlers read
  from a value that may be a string), and neither has a function value, so both read as
  \<^verbatim>\<open>undefined\<close>.
\<close>

fun get_prop :: "jsval \<Rightarrow> string \<Rightarrow> js_error + jsval" where
  "get_prop Undefined p = Inl (TypeError (''Cannot read property '' @ p @ '' of undefined''))"
| "get_prop (Str s) p = Inr Undefined"
| "get_prop (Closure f) p = Inr Undefined"
| "get_prop (Obj ps) p = Inr (case map_of ps p of None \<Rightarrow> Undefined | Some v \<Rightarrow> v)"

text \<open>
  The identifiers bound at the top level of \<^verbatim>\<open>src/index.js\<close>: its \<^verbatim>\<open>var\<close> and
  \<^verbatim>\<open>function\<close> declarations, in source order, after the names every Node module sees.
  The modules it requires are taken to leave the global object alone, so that these are
  all the names a handler can read besides its own.
\<close>

definition module_bindings :: "(string \<times> jsval) list" where
  "module_bindings =
    [(''exports'', Obj []), (''require'', Closure ''require''), (''module'', Obj []),
     (''console'', Obj []), (''Object'', Closure ''Object''), (''Date'', Closure ''Date''),
     (''APP_ID'', Undefined),
     (''http'', Obj []),
     (''alexaDateUtil'', Obj []),
     (''AlexaSkill'', Closure ''AlexaSkill''),
     (''MODecide'', Closure ''MODecide''),
     (''handleWelcomeRequest'', Closure ''handleWelcomeRequest''),
     (''handleHelpRequest'', Closure ''handleHelpRequest''),
     (''handleCityDialogRequest'', Closure ''handleCityDialogRequest''),
     (''handleDateDialogRequest'', Closure ''handleDateDialogRequest''),
     (''handleNoSlotDialogRequest'', Closure ''handleNoSlotDialogRequest''),
     (''handleOneshotUmbrellaRequest'', Closure ''handleOneshotUmbrellaRequest''),
     (''getUmbrellaDecisionResponse'', Closure ''getUmbrellaDecisionResponse''),
     (''getFinalUmbrellaResponse'', Closure ''getFinalUmbrellaResponse''),
     (''makeDataPointRequest'', Closure ''makeDataPointRequest''),
     (''getLocationFromIntent'', Closure ''getLocationFromIntent''),
     (''getDateFromIntent'', Closure ''getDateFromIntent'')]"

text \<open>
  Reading an identifier that is no parameter and no \<^verbatim>\<open>var\<close> of the function around it:
  it is looked up among the module's bindings, and a name with no binding there throws a
  ReferenceError. (The handlers never assign to such a name before reading it.)
\<close>

definition lookup_in :: "(string \<times> jsval) list \<Rightarrow> string \<Rightarrow> js_error + jsval" where
  "lookup_in bindings x =
     (case map_of bindings x of
        None \<Rightarrow> Inl (ReferenceError (x @ '' is not defined''))
      | Some v \<Rightarrow> Inr v)"

text \<open>
  A call \<^verbatim>\<open>f(...)\<close> of such an identifier. The callee is read before any argument is
  evaluated, so an unbound name throws at once, and a value that is no function throws a
  TypeError. The names the handlers call this way (\<^verbatim>\<open>getAllStationsText\<close>,
  \<^verbatim>\<open>getFinalTideResponse\<close>, \<^verbatim>\<open>handleSupportedCitiesRequest\<close>) have no body in the file,
  so there is nothing to run past the lookup; the case of a function value stands for a
  return value and is not reached for any of them.
\<close>

definition call_in :: "(string \<times> jsval) list \<Rightarrow> string \<Rightarrow> js_error + jsval" where
  "call_in bindings f =
     (case lookup_in bindings f of
        Inl e \<Rightarrow> Inl e
      | Inr (Closure g) \<Rightarrow> Inr Undefined
      | Inr v \<Rightarrow> Inl (TypeError (f @ '' is not a function'')))"

definition lookup_global :: "string \<Rightarrow> js_error + jsval" where
  "lookup_global x = lookup_in module_bindings x"

definition call_global :: "string \<Rightarrow> js_error + jsval" where
  "call_global f = call_in module_bindings f"

section \<open>Requests, session and responses\<close>

text \<open>
  A slot of the intent is an object whose \<^verbatim>\<open>value\<close> is a string or is missing; the
  \<^verbatim>\<open>slots\<close> object maps slot names to slots. The session carries the attribute bag, of
  which the handlers read and write \<^verbatim>\<open>city\<close> and \<^verbatim>\<open>date\<close>; a missing attribute reads as
  \<^verbatim>\<open>undefined\<close>. The envelope is taken to be well formed: \<^verbatim>\<open>intent.slots\<close> and
  \<^verbatim>\<open>session.attributes\<close> are objects.
\<close>

datatype slot = Slot (slot_value: "string option")

record intent =
  slots :: "string \<rightharpoonup> slot"

record session =
  city :: jsval
  date :: jsval

record directive =
  speech :: string
  reprompt :: "string option"
  card :: "(string \<times> string) option"
  shouldEndSession :: bool

text \<open>
  What one handler call comes to: it threw, it handed a directive to the response object,
  or it returned without doing either.
\<close>

datatype outcome =
    Threw js_error
  | Responded directive
  | NoResponse

text \<open>
  Modelled from the spec: the response object of \<^verbatim>\<open>AlexaSkill.js\<close>, which is not among the
  sources. The spec's directive has speech, reprompt and a session-continuation flag;
  \<^verbatim>\<open>response.ask\<close> is the directive that asks the user and continues the session, and
  \<^verbatim>\<open>response.tellWithCard\<close> is the terminal directive (\<^verbatim>\<open>shouldEndSession = true\<close>) with a
  card of title and content.
\<close>

definition ask :: "string \<Rightarrow> string \<Rightarrow> directive" where
  "ask speechOutput repromptText =
     \<lparr>speech = speechOutput, reprompt = Some repromptText, card = None,
      shouldEndSession = False\<rparr>"

definition tellWithCard :: "string \<Rightarrow> string \<Rightarrow> string \<Rightarrow> directive" where
  "tellWithCard speechOutput cardTitle cardContent =
     \<lparr>speech = speechOutput, reprompt = None, card = Some (cardTitle, cardContent),
      shouldEndSession = True\<rparr>"

section \<open>Numbers\<close>

text \<open>
  A JavaScript number is a double: not-a-number, an infinity, or a finite value, which is a
  real number. Comparing two doubles is exact, so \<^verbatim>\<open>a > b\<close> on finite values is the order
  of the reals, and any comparison with NaN is false.
\<close>

datatype jsnumber = NaN | PosInfinity | NegInfinity | Num real

fun js_gt :: "jsnumber \<Rightarrow> jsnumber \<Rightarrow> bool" where
  "js_gt NaN b = False"
| "js_gt a NaN = False"
| "js_gt PosInfinity PosInfinity = False"
| "js_gt PosInfinity b = True"
| "js_gt NegInfinity b = False"
| "js_gt (Num x) PosInfinity = False"
| "js_gt (Num x) NegInfinity = True"
| "js_gt (Num x) (Num y) = (x > y)"

section \<open>The welcome and help handlers\<close>

text \<open>
  \<^verbatim>\<open>handleWelcomeRequest\<close> declares \<^verbatim>\<open>inputPrompt\<close>, then reads \<^verbatim>\<open>whichCityPrompt\<close> for the
  speech and \<^verbatim>\<open>inputPromt\<close> for the reprompt, in that order, before it calls
  \<^verbatim>\<open>response.ask\<close>. Its parameter and \<^verbatim>\<open>var\<close>s are \<^verbatim>\<open>response\<close>, \<^verbatim>\<open>inputPrompt\<close>,
  \<^verbatim>\<open>speechOutput\<close> and \<^verbatim>\<open>repromptText\<close>: neither name it reads is one of them.
\<close>

definition handleWelcomeRequest :: "outcome" where
  "handleWelcomeRequest =
     (case lookup_global ''whichCityPrompt'' of
        Inl e \<Rightarrow> Threw e
      | Inr whichCityPrompt \<Rightarrow>
          (let speechOutput = ''Welcome to The Met Office. '' @ to_string whichCityPrompt
           in case lookup_global ''inputPromt'' of
                Inl e \<Rightarrow> Threw e
              | Inr inputPromt \<Rightarrow>
                  (let repromptText =
                         ''We can help you make decisions based on our  ''
                         @ ''world leading weather forecasts. ''
                         @ ''For instance, you can find out if you'll need an umbrella.''
                         @ to_string inputPromt
                   in Responded (ask speechOutput repromptText))))"

text \<open>\<^verbatim>\<open>eventHandlers.onLaunch\<close>: logs, then calls the welcome handler; the session is not touched.\<close>

definition onLaunch :: "session \<Rightarrow> session \<times> outcome" where
  "onLaunch s = (s, handleWelcomeRequest)"

definition handleHelpRequest :: "outcome" where
  "handleHelpRequest =
     (let repromptText = ''Ask me if you are going to need an umbrella if you like.'';
          speechOutput = ''I'm here to help you make decisions that rely on our ''
            @ ''world leading weather forecasts.''
            @ ''Or you can say exit. ''
            @ ''For instance, you can find out if you'll need an umbrella.''
            @ repromptText
      in Responded (ask speechOutput repromptText))"

section \<open>The umbrella rule\<close>

text \<open>\<^verbatim>\<open>getUmbrellaDecisionResponse\<close> of \<^verbatim>\<open>src/index.js\<close>: the threshold is 0.5.\<close>

definition getUmbrellaDecisionResponse :: "jsnumber \<Rightarrow> string" where
  "getUmbrellaDecisionResponse rainProb =
     (let decisionTxt =
            (if js_gt rainProb (Num 0.5) then ''Take an umbrella''
             else ''Don't take an umbrella'')
      in decisionTxt)"

text \<open>
  The function of the same name in the earlier handler file (\<^verbatim>\<open>unnamed/part_001\<close>): the
  same rule with the threshold 50, for a probability in percent.
\<close>

definition getUmbrellaDecisionResponse_part001 :: "jsnumber \<Rightarrow> string" where
  "getUmbrellaDecisionResponse_part001 rainProb =
     (let decisionTxt =
            (if js_gt rainProb (Num 50) then ''Take an umbrella''
             else ''Don't take an umbrella'')
      in decisionTxt)"

section \<open>Dates\<close>

text \<open>
  What the handlers see of a \<^verbatim>\<open>Date\<close>: an invalid date, or a valid one with its year, its
  month index (0 for January) and its day of the month in the host's local time. The
  getters of an invalid date return NaN.
\<close>

datatype jsdate = InvalidDate | LocalDate int nat nat

datatype datenum = NotANumber | Whole int

fun getFullYear :: "jsdate \<Rightarrow> datenum" where
  "getFullYear InvalidDate = NotANumber"
| "getFullYear (LocalDate y m d) = Whole y"

fun getMonth :: "jsdate \<Rightarrow> datenum" where
  "getMonth InvalidDate = NotANumber"
| "getMonth (LocalDate y m d) = Whole (int m)"

fun getDate :: "jsdate \<Rightarrow> datenum" where
  "getDate InvalidDate = NotANumber"
| "getDate (LocalDate y m d) = Whole (int d)"

text \<open>\<^verbatim>\<open>n + 1\<close> and \<^verbatim>\<open>n < 10\<close> on such a number: NaN stays NaN and compares false.\<close>

fun plus_one :: "datenum \<Rightarrow> datenum" where
  "plus_one NotANumber = NotANumber"
| "plus_one (Whole i) = Whole (i + 1)"

fun less_than_ten :: "datenum \<Rightarrow> bool" where
  "less_than_ten NotANumber = False"
| "less_than_ten (Whole i) = (i < 10)"

text \<open>The decimal numeral a whole number turns into inside \<^verbatim>\<open>"..." + n\<close>.\<close>

definition digit :: "nat \<Rightarrow> char" where
  "digit d = ''0123456789'' ! d"

fun show_nat :: "nat \<Rightarrow> string" where
  "show_nat n = (if n < 10 then [digit n] else show_nat (n div 10) @ [digit (n mod 10)])"

declare show_nat.simps [simp del]

fun number_to_string :: "datenum \<Rightarrow> string" where
  "number_to_string NotANumber = ''NaN''"
| "number_to_string (Whole i) = (if i < 0 then ''-'' @ show_nat (nat (- i)) else show_nat (nat i))"

text \<open>
  What the run supplies and the file does not define: the host's \<^verbatim>\<open>new Date(string)\<close>
  (which strings parse, and to which local calendar day, is up to the engine and its time
  zone), \<^verbatim>\<open>new Date()\<close> for the current time, and \<^verbatim>\<open>getFormattedDate\<close> of the module
  \<^verbatim>\<open>alexaDateUtil\<close>, which the file requires and which is not among the sources.
\<close>

record runtime =
  Date_parse :: "string \<Rightarrow> jsdate"
  Date_now :: jsdate
  getFormattedDate :: "jsdate \<Rightarrow> string"

section \<open>Reading the slots\<close>

text \<open>
  \<^verbatim>\<open>slot.value\<close> as a value, and the guard \<^verbatim>\<open>slot && slot.value\<close> that the handlers put
  on a slot which may be missing: it is the slot itself when that is missing, else its
  value.
\<close>

definition value_of :: "slot \<Rightarrow> jsval" where
  "value_of sl = (case slot_value sl of None \<Rightarrow> Undefined | Some v \<Rightarrow> Str v)"

definition slot_and_value :: "slot option \<Rightarrow> jsval" where
  "slot_and_value so = (case so of None \<Rightarrow> Undefined | Some sl \<Rightarrow> value_of sl)"

text \<open>
  \<^verbatim>\<open>getLocationFromIntent\<close>: reads the slot \<^verbatim>\<open>location\<close>. The branch for a missing slot or
  an empty value is empty, so the function falls off its end and returns \<^verbatim>\<open>undefined\<close>;
  otherwise it returns the slot's value. The flag \<^verbatim>\<open>assignDefault\<close> is never read.
\<close>

definition getLocationFromIntent :: "intent \<Rightarrow> bool \<Rightarrow> jsval" where
  "getLocationFromIntent intent assignDefault =
     (let locationSlot = slots intent ''location''
      in case locationSlot of
           None \<Rightarrow> Undefined
         | Some sl \<Rightarrow> (if \<not> truthy (value_of sl) then Undefined else value_of sl))"

text \<open>
  \<^verbatim>\<open>getDateFromIntent\<close>: reads the slot \<^verbatim>\<open>Date\<close>; a missing slot or an empty value gives
  the object for today, anything else is handed to \<^verbatim>\<open>new Date\<close> and formatted.
\<close>

definition pad2 :: "datenum \<Rightarrow> string" where
  "pad2 n = (if less_than_ten n then ''0'' @ number_to_string n else number_to_string n)"

definition getDateFromIntent :: "runtime \<Rightarrow> intent \<Rightarrow> jsval" where
  "getDateFromIntent rt intent =
     (let dateSlot = slots intent ''Date'';
          today = Obj [(''displayDate'', Str ''Today''),
                       (''requestDateParam'', Str ''date=today'')]
      in case dateSlot of
           None \<Rightarrow> today
         | Some sl \<Rightarrow>
             (case slot_value sl of
                None \<Rightarrow> today
              | Some v \<Rightarrow>
                  if v = [] then today
                  else
                    (let date = Date_parse rt v;
                         month = pad2 (plus_one (getMonth date));
                         dayOfMonth = pad2 (getDate date);
                         requestDay = ''begin_date='' @ number_to_string (getFullYear date)
                                      @ month @ dayOfMonth @ ''&range=24''
                     in Obj [(''displayDate'', Str (getFormattedDate rt date)),
                             (''requestDateParam'', Str requestDay)])))"

section \<open>The final request\<close>

text \<open>
  \<^verbatim>\<open>makeDataPointRequest\<close> has an empty body: it returns without ever calling the callback
  it is given. \<^verbatim>\<open>getFinalUmbrellaResponse\<close> hands it the callback that would tell the user
  the decision.
\<close>

datatype data_point_response = DataPoint (rainProb: jsnumber)

definition dataPointCallback :: "jsval \<Rightarrow> data_point_response option \<Rightarrow> outcome" where
  "dataPointCallback err dataPointResponse =
     (if truthy err then
        (let speechOutput =
           ''Sorry, the Met Office Data Point is experiencing a problem. Please try again later''
         in Responded (tellWithCard speechOutput ''MODecide'' speechOutput))
      else
        (case dataPointResponse of
           None \<Rightarrow> Threw (TypeError ''Cannot read property rainProb of undefined'')
         | Some r \<Rightarrow>
             (let speechOutput = getUmbrellaDecisionResponse (rainProb r)
              in Responded (tellWithCard speechOutput ''MODecide'' speechOutput))))"

definition makeDataPointRequest ::
    "jsval \<Rightarrow> jsdate \<Rightarrow> (jsval \<Rightarrow> data_point_response option \<Rightarrow> outcome) \<Rightarrow> outcome" where
  "makeDataPointRequest station d callback = NoResponse"

definition getFinalUmbrellaResponse :: "jsval \<Rightarrow> jsdate \<Rightarrow> outcome" where
  "getFinalUmbrellaResponse location d = makeDataPointRequest location d dataPointCallback"

section \<open>The dialog and one-shot handlers\<close>

text \<open>
  Each handler takes the session and returns it as the call leaves it, with what the call
  came to. A throw after an assignment to the session keeps the assignment.
\<close>

definition handleCityDialogRequest :: "intent \<Rightarrow> session \<Rightarrow> session \<times> outcome" where
  "handleCityDialogRequest intent session =
     (let cityStation = getLocationFromIntent intent False
      in case get_prop cityStation ''error'' of
           Inl e \<Rightarrow> (session, Threw e)
         | Inr err \<Rightarrow>
             if truthy err then
               (case call_global ''getAllStationsText'' of
                  Inl e \<Rightarrow> (session, Threw e)
                | Inr stations \<Rightarrow>
                    (let repromptText =
                           ''Currently, I know tide information for these west coast cities: ''
                           @ to_string stations
                           @ ''Which city would you like tide information for?''
                     in case get_prop cityStation ''city'' of
                          Inl e \<Rightarrow> (session, Threw e)
                        | Inr c \<Rightarrow>
                            (let speechOutput =
                                   (if truthy c
                                    then ''I'm sorry, I don't have any data for '' @ to_string c
                                         @ ''. '' @ repromptText
                                    else repromptText)
                             in (session, Responded (ask speechOutput repromptText)))))
             else if truthy (date session) then
               (case call_global ''getFinalTideResponse'' of
                  Inl e \<Rightarrow> (session, Threw e)
                | Inr r \<Rightarrow> (session, NoResponse))
             else
               (let session' = session\<lparr>city := cityStation\<rparr>;
                    speechOutput = ''For which date?''
                in case get_prop cityStation ''city'' of
                     Inl e \<Rightarrow> (session', Threw e)
                   | Inr c \<Rightarrow>
                       (let repromptText =
                              ''For which date would you like tide information for ''
                              @ to_string c @ ''?''
                        in (session', Responded (ask speechOutput repromptText)))))"

definition handleDateDialogRequest ::
    "runtime \<Rightarrow> intent \<Rightarrow> session \<Rightarrow> session \<times> outcome" where
  "handleDateDialogRequest rt intent session =
     (let d = getDateFromIntent rt intent
      in if \<not> truthy d then
           (let repromptText =
                  ''Please try again saying a day of the week, for example, Saturday. ''
                  @ ''For which date would you like tide information?'';
                speechOutput = ''I'm sorry, I didn't understand that date. '' @ repromptText
            in (session, Responded (ask speechOutput repromptText)))
         else if truthy (city session) then
           (case call_global ''getFinalTideResponse'' of
              Inl e \<Rightarrow> (session, Threw e)
            | Inr r \<Rightarrow> (session, NoResponse))
         else
           (let session' = session\<lparr>date := d\<rparr>
            in case get_prop d ''displayDate'' of
                 Inl e \<Rightarrow> (session', Threw e)
               | Inr displayDate \<Rightarrow>
                   (let speechOutput = ''For which city would you like tide information for ''
                                       @ to_string displayDate @ ''?'';
                        repromptText = ''For which city?''
                    in (session', Responded (ask speechOutput repromptText)))))"

definition handleNoSlotDialogRequest :: "intent \<Rightarrow> session \<Rightarrow> session \<times> outcome" where
  "handleNoSlotDialogRequest intent session =
     (if truthy (city session) then
        (let repromptText =
               ''Please try again saying a day of the week, for example, Saturday. '';
             speechOutput = repromptText
         in (session, Responded (ask speechOutput repromptText)))
      else
        (case call_global ''handleSupportedCitiesRequest'' of
           Inl e \<Rightarrow> (session, Threw e)
         | Inr r \<Rightarrow> (session, NoResponse)))"

definition handleOneshotUmbrellaRequest ::
    "runtime \<Rightarrow> intent \<Rightarrow> session \<Rightarrow> session \<times> outcome" where
  "handleOneshotUmbrellaRequest rt intent session =
     (let location = getLocationFromIntent intent True
      in case get_prop location ''error'' of
           Inl e \<Rightarrow> (session, Threw e)
         | Inr err \<Rightarrow>
             if truthy err then
               (let repromptText = ''Currently, I can only help you with cities in the UK''
                                   @ ''Which city would you like tide information for?''
                in case get_prop location ''city'' of
                     Inl e \<Rightarrow> (session, Threw e)
                   | Inr c \<Rightarrow>
                       (let speechOutput =
                              (if truthy c
                               then ''I'm sorry, I don't have any data for '' @ to_string c
                                    @ ''. '' @ repromptText
                               else repromptText)
                        in (session, Responded (ask speechOutput repromptText))))
             else
               (let d = Date_now rt
                in (session, getFinalUmbrellaResponse location d)))"

text \<open>The entries of \<^verbatim>\<open>intentHandlers\<close>.\<close>

definition OneShotUmbrellaIntent ::
    "runtime \<Rightarrow> intent \<Rightarrow> session \<Rightarrow> session \<times> outcome" where
  "OneShotUmbrellaIntent rt intent session = handleOneshotUmbrellaRequest rt intent session"

definition DialogUmbrellaIntent ::
    "runtime \<Rightarrow> intent \<Rightarrow> session \<Rightarrow> session \<times> outcome" where
  "DialogUmbrellaIntent rt intent session =
     (let citySlot = slots intent ''City'';
          dateSlot = slots intent ''Date''
      in if truthy (slot_and_value citySlot) then
           handleCityDialogRequest intent session
         else if truthy (slot_and_value dateSlot) then
           handleDateDialogRequest rt intent session
         else
           handleNoSlotDialogRequest intent session)"

section \<open>The earlier handler file\<close>

text \<open>
  A second file of the repository (\<^verbatim>\<open>unnamed/part_001\<close>) is an earlier state of the same
  skill. It has the same welcome handler and the same dialog dispatch, its own set of
  top-level declarations, which lacks the three dialog handlers.
\<close>

definition part001_bindings :: "(string \<times> jsval) list" where
  "part001_bindings =
    [(''exports'', Obj []), (''require'', Closure ''require''), (''module'', Obj []),
     (''console'', Obj []), (''Object'', Closure ''Object''), (''JSON'', Obj []),
     (''APP_ID'', Undefined),
     (''http'', Obj []),
     (''alexaDateUtil'', Obj []),
     (''datapoint'', Obj []),
     (''request'', Closure ''request''),
     (''AlexaSkill'', Closure ''AlexaSkill''),
     (''MODecide'', Closure ''MODecide''),
     (''handleWelcomeRequest'', Closure ''handleWelcomeRequest''),
     (''handleHelpRequest'', Closure ''handleHelpRequest''),
     (''handleOneshotUmbrellaRequest'', Closure ''handleOneshotUmbrellaRequest''),
     (''onGotLocation'', Closure ''onGotLocation''),
     (''getLocationFromIntent'', Closure ''getLocationFromIntent''),
     (''getWeatherFromLocation'', Closure ''getWeatherFromLocation''),
     (''getUmbrellaDecisionResponse'', Closure ''getUmbrellaDecisionResponse'')]"

definition handleWelcomeRequest_part001 :: "outcome" where
  "handleWelcomeRequest_part001 =
     (case lookup_in part001_bindings ''whichCityPrompt'' of
        Inl e \<Rightarrow> Threw e
      | Inr whichCityPrompt \<Rightarrow>
          (let speechOutput = ''Welcome to The Met Office. '' @ to_string whichCityPrompt
           in case lookup_in part001_bindings ''inputPromt'' of
                Inl e \<Rightarrow> Threw e
              | Inr inputPromt \<Rightarrow>
                  (let repromptText =
                         ''We can help you make decisions based on our  ''
                         @ ''world leading weather forecasts. ''
                         @ ''For instance, you can find out if you'll need an umbrella.''
                         @ to_string inputPromt
                   in Responded (ask speechOutput repromptText))))"

definition onLaunch_part001 :: "session \<Rightarrow> session \<times> outcome" where
  "onLaunch_part001 s = (s, handleWelcomeRequest_part001)"

definition call_handler_part001 :: "string \<Rightarrow> session \<Rightarrow> session \<times> outcome" where
  "call_handler_part001 f session =
     (case call_in part001_bindings f of
        Inl e \<Rightarrow> (session, Threw e)
      | Inr r \<Rightarrow> (session, NoResponse))"

definition DialogUmbrellaIntent_part001 :: "intent \<Rightarrow> session \<Rightarrow> session \<times> outcome" where
  "DialogUmbrellaIntent_part001 intent session =
     (let citySlot = slots intent ''City'';
          dateSlot = slots intent ''Date''
      in if truthy (slot_and_value citySlot) then
           call_handler_part001 ''handleCityDialogRequest'' session
         else if truthy (slot_and_value dateSlot) then
           call_handler_part001 ''handleDateDialogRequest'' session
         else
           call_handler_part001 ''handleNoSlotDialogRequest'' session)"

section \<open>The words of the specification\<close>

text \<open>
  A slot is provided when it is present with a non-empty value; absent and empty are the
  two ways of not being provided.
\<close>

definition slot_filled :: "intent \<Rightarrow> string \<Rightarrow> bool" where
  "slot_filled intent n =
     (case slots intent n of
        None \<Rightarrow> False
      | Some sl \<Rightarrow> (case slot_value sl of None \<Rightarrow> False | Some v \<Rightarrow> v \<noteq> []))"

text \<open>A directive prompts for a city when its speech names the word.\<close>

fun starts_with :: "string \<Rightarrow> string \<Rightarrow> bool" where
  "starts_with s [] = True"
| "starts_with [] (p # ps) = False"
| "starts_with (c # cs) (p # ps) = (c = p \<and> starts_with cs ps)"

fun contains :: "string \<Rightarrow> string \<Rightarrow> bool" where
  "contains [] p = (p = [])"
| "contains (c # cs) p = (starts_with (c # cs) p \<or> contains cs p)"

definition asks_for_city :: "directive \<Rightarrow> bool" where
  "asks_for_city d = contains (speech d) ''city''"


text \<open>
  A host for the examples: it reads the one ISO date the examples use as that calendar
  day, takes the other example string as no date, and formats a date as month, day and
  year in numbers.
\<close>

definition example_runtime :: runtime where
  "example_runtime =
     \<lparr>Date_parse = (\<lambda>s. if s = ''2015-06-20'' then LocalDate 2015 5 20 else InvalidDate),
      Date_now = LocalDate 2015 5 20,
      getFormattedDate =
        (\<lambda>d. number_to_string (plus_one (getMonth d)) @ ''/'' @ number_to_string (getDate d)
              @ ''/'' @ number_to_string (getFullYear d))\<rparr>"


section \<open>What the handlers compute\<close>

lemma call_getFinalTideResponse:
  "call_global ''getFinalTideResponse'' = Inl (ReferenceError ''getFinalTideResponse is not defined'')"
  by (simp add: call_global_def call_in_def lookup_in_def module_bindings_def)

lemma call_handleSupportedCitiesRequest:
  "call_global ''handleSupportedCitiesRequest'' =
     Inl (ReferenceError ''handleSupportedCitiesRequest is not defined'')"
  by (simp add: call_global_def call_in_def lookup_in_def module_bindings_def)

lemma truthy_slot_and_value: "truthy (slot_and_value (slots intent n)) = slot_filled intent n"
  by (simp add: slot_and_value_def value_of_def slot_filled_def split: option.splits)

lemma getLocation_filled:
  assumes "slot_filled intent ''location''"
  shows "\<exists>v. v \<noteq> [] \<and> slots intent ''location'' = Some (Slot (Some v))
         \<and> getLocationFromIntent intent b = Str v"
proof -
  from assms obtain sl v where
    sl: "slots intent ''location'' = Some sl" and v: "slot_value sl = Some v" "v \<noteq> []"
    by (auto simp: slot_filled_def split: option.splits)
  from v have "sl = Slot (Some v)" by (cases sl) simp
  with sl v show ?thesis
    by (auto simp: getLocationFromIntent_def value_of_def)
qed

lemma getLocation_unfilled:
  "\<not> slot_filled intent ''location'' \<Longrightarrow> getLocationFromIntent intent b = Undefined"
  by (auto simp: slot_filled_def getLocationFromIntent_def value_of_def split: option.splits)

lemma getDate_truthy: "truthy (getDateFromIntent rt intent)"
  by (simp add: getDateFromIntent_def Let_def split: option.splits)

lemma handleCity_filled:
  assumes "slots intent ''location'' = Some (Slot (Some v))" "v \<noteq> []"
  shows "handleCityDialogRequest intent session =
     (if truthy (date session)
      then (session, Threw (ReferenceError ''getFinalTideResponse is not defined''))
      else (session\<lparr>city := Str v\<rparr>,
            Responded (ask ''For which date?''
               ''For which date would you like tide information for undefined?'')))"
  using assms
  by (simp add: handleCityDialogRequest_def getLocationFromIntent_def value_of_def Let_def
      call_getFinalTideResponse)

lemma handleCity_unfilled:
  assumes "\<not> slot_filled intent ''location''"
  shows "handleCityDialogRequest intent session =
     (session, Threw (TypeError ''Cannot read property error of undefined''))"
  using getLocation_unfilled [OF assms]
  by (simp add: handleCityDialogRequest_def)

lemma handleOneshot_filled:
  assumes "slots intent ''location'' = Some (Slot (Some v))" "v \<noteq> []"
  shows "handleOneshotUmbrellaRequest rt intent session = (session, NoResponse)"
  using assms
  by (simp add: handleOneshotUmbrellaRequest_def getLocationFromIntent_def value_of_def Let_def
      getFinalUmbrellaResponse_def makeDataPointRequest_def)

lemma handleOneshot_unfilled:
  assumes "\<not> slot_filled intent ''location''"
  shows "handleOneshotUmbrellaRequest rt intent session =
     (session, Threw (TypeError ''Cannot read property error of undefined''))"
  using getLocation_unfilled [OF assms]
  by (simp add: handleOneshotUmbrellaRequest_def)

lemma handleDate_result:
  "handleDateDialogRequest rt intent session =
     (if truthy (city session)
      then (session, Threw (ReferenceError ''getFinalTideResponse is not defined''))
      else (case get_prop (getDateFromIntent rt intent) ''displayDate'' of
              Inl e \<Rightarrow> (session\<lparr>date := getDateFromIntent rt intent\<rparr>, Threw e)
            | Inr dd \<Rightarrow>
              (session\<lparr>date := getDateFromIntent rt intent\<rparr>,
               Responded (ask (''For which city would you like tide information for ''
                                @ to_string dd @ ''?'') ''For which city?''))))"
  by (simp add: handleDateDialogRequest_def getDate_truthy Let_def call_getFinalTideResponse
      split: sum.splits)

lemma handleNoSlot_result:
  "handleNoSlotDialogRequest intent session =
     (if truthy (city session)
      then (session, Responded (ask
              ''Please try again saying a day of the week, for example, Saturday. ''
              ''Please try again saying a day of the week, for example, Saturday. ''))
      else (session, Threw (ReferenceError ''handleSupportedCitiesRequest is not defined'')))"
  by (simp add: handleNoSlotDialogRequest_def Let_def call_handleSupportedCitiesRequest)

lemma dialog_dispatch:
  "DialogUmbrellaIntent rt intent session =
     (if slot_filled intent ''City'' then handleCityDialogRequest intent session
      else if slot_filled intent ''Date'' then handleDateDialogRequest rt intent session
      else handleNoSlotDialogRequest intent session)"
  by (simp add: DialogUmbrellaIntent_def Let_def truthy_slot_and_value)

lemma dialog_never_terminal:
  assumes "snd (DialogUmbrellaIntent rt intent session) = Responded d"
  shows "\<not> shouldEndSession d"
proof (cases "slot_filled intent ''location''")
  case True
  then obtain v where "slots intent ''location'' = Some (Slot (Some v))" "v \<noteq> []"
    using getLocation_filled by blast
  with assms show ?thesis
    by (auto simp: dialog_dispatch handleCity_filled handleDate_result handleNoSlot_result ask_def
        split: if_splits sum.splits)
next
  case False
  with assms show ?thesis
    by (auto simp: dialog_dispatch handleCity_unfilled handleDate_result handleNoSlot_result ask_def
        split: if_splits sum.splits)
qed









section \<open>Properties\<close>

text \<open>
  Claim C2. The umbrella decision is a threshold comparison: for every finite
  probability \<open>p\<close> the text is "Take an umbrella" exactly when \<open>p\<close> is strictly greater
  than 0.5, and "Don't take an umbrella" exactly when it is not; 0.6 gives the first,
  0.4 and the boundary 0.5 give the second. Of the values that are no finite number, only
  positive infinity is above the threshold. The rule of the earlier handler file is the
  same one read in percent.
\<close>

theorem umbrella_threshold:
  "(getUmbrellaDecisionResponse (Num p) = ''Take an umbrella'') = (p > 0.5)
   \<and> (getUmbrellaDecisionResponse (Num p) = ''Don't take an umbrella'') = (\<not> p > 0.5)
   \<and> getUmbrellaDecisionResponse (Num 0.6) = ''Take an umbrella''
   \<and> getUmbrellaDecisionResponse (Num 0.4) = ''Don't take an umbrella''
   \<and> getUmbrellaDecisionResponse (Num 0.5) = ''Don't take an umbrella''
   \<and> getUmbrellaDecisionResponse NaN = ''Don't take an umbrella''
   \<and> getUmbrellaDecisionResponse PosInfinity = ''Take an umbrella''
   \<and> getUmbrellaDecisionResponse NegInfinity = ''Don't take an umbrella''
   \<and> getUmbrellaDecisionResponse_part001 (Num (100 * p)) = getUmbrellaDecisionResponse (Num p)"
  by (simp add: getUmbrellaDecisionResponse_def getUmbrellaDecisionResponse_part001_def)

text \<open>
  Claim C9. A launch request never gets a welcome: the welcome handler throws a
  ReferenceError at its read of the undeclared \<open>whichCityPrompt\<close>, before any directive is
  built (the read of \<open>inputPromt\<close>, undeclared too, is never reached), and the launch
  handler passes the fault on with the session as it was. The earlier handler file does
  the same.
\<close>

theorem launch_throws_reference_error:
  "onLaunch s = (s, Threw (ReferenceError ''whichCityPrompt is not defined''))
   \<and> lookup_global ''inputPromt'' = Inl (ReferenceError ''inputPromt is not defined'')
   \<and> onLaunch_part001 s = (s, Threw (ReferenceError ''whichCityPrompt is not defined''))"
  by (simp add: onLaunch_def handleWelcomeRequest_def lookup_global_def lookup_in_def
      module_bindings_def onLaunch_part001_def handleWelcomeRequest_part001_def
      part001_bindings_def)

text \<open>
  Claim C8. A dialog turn looks at the City slot first and at the Date slot second: a
  City slot with a non-empty value runs the city branch whatever the Date slot holds,
  otherwise a Date slot with a non-empty value runs the date branch, and with neither the
  no-slot branch runs. The earlier handler file dispatches the same way, to handlers it
  does not declare, so there the branch taken shows in the name of the ReferenceError.
\<close>

theorem dialog_dispatch_priority:
  "DialogUmbrellaIntent rt intent session =
     (if slot_filled intent ''City'' then handleCityDialogRequest intent session
      else if slot_filled intent ''Date'' then handleDateDialogRequest rt intent session
      else handleNoSlotDialogRequest intent session)
   \<and> DialogUmbrellaIntent_part001 intent session =
     (if slot_filled intent ''City'' then
        (session, Threw (ReferenceError ''handleCityDialogRequest is not defined''))
      else if slot_filled intent ''Date'' then
        (session, Threw (ReferenceError ''handleDateDialogRequest is not defined''))
      else (session, Threw (ReferenceError ''handleNoSlotDialogRequest is not defined'')))"
  by (simp add: DialogUmbrellaIntent_def DialogUmbrellaIntent_part001_def Let_def
      truthy_slot_and_value call_handler_part001_def call_in_def lookup_in_def part001_bindings_def)

text \<open>
  Claim C1, at the input where the code departs from it. The session is empty and the
  turn supplies the city in the City slot, so the city is resolved and only the date is
  missing: the claim asks for a prompt for the date. The city handler reads the slot
  \<open>location\<close> instead, gets \<open>undefined\<close>, and throws on its \<open>.error\<close>: no directive at
  all, and the session still empty.
\<close>

theorem city_turn_without_location_throws:
  "DialogUmbrellaIntent rt \<lparr>slots = [''City'' \<mapsto> Slot (Some ''Seattle'')]\<rparr>
       \<lparr>city = Undefined, date = Undefined\<rparr>
   = (\<lparr>city = Undefined, date = Undefined\<rparr>,
      Threw (TypeError ''Cannot read property error of undefined''))"
  by (simp add: DialogUmbrellaIntent_def Let_def slot_and_value_def value_of_def
      handleCityDialogRequest_def getLocationFromIntent_def)

text \<open>
  Claim C4, at the inputs where the code departs from it. The session holds a city and
  the turn supplies a date in the Date slot (and no city): the claim asks for a terminal
  directive with the answer. The date handler calls \<open>getFinalTideResponse\<close>, which the
  file does not declare, so every such turn ends in a ReferenceError with the session as
  it was.
\<close>

theorem date_turn_with_stored_city_throws:
  assumes "truthy (city session)"
    and "\<not> slot_filled intent ''City''"
    and "slot_filled intent ''Date''"
  shows "DialogUmbrellaIntent rt intent session =
           (session, Threw (ReferenceError ''getFinalTideResponse is not defined''))"
  using assms by (simp add: dialog_dispatch handleDate_result)

theorem date_turn_with_stored_city_throws_witness:
  "truthy (city \<lparr>city = Str ''London'', date = Undefined\<rparr>)
   \<and> \<not> slot_filled \<lparr>slots = [''Date'' \<mapsto> Slot (Some ''2015-06-20'')]\<rparr> ''City''
   \<and> slot_filled \<lparr>slots = [''Date'' \<mapsto> Slot (Some ''2015-06-20'')]\<rparr> ''Date''
   \<and> DialogUmbrellaIntent example_runtime \<lparr>slots = [''Date'' \<mapsto> Slot (Some ''2015-06-20'')]\<rparr>
        \<lparr>city = Str ''London'', date = Undefined\<rparr>
      = (\<lparr>city = Str ''London'', date = Undefined\<rparr>,
         Threw (ReferenceError ''getFinalTideResponse is not defined''))"
proof -
  let ?i = "\<lparr>slots = [''Date'' \<mapsto> Slot (Some ''2015-06-20'')]\<rparr>"
  let ?s = "\<lparr>city = Str ''London'', date = Undefined\<rparr>"
  have h1: "truthy (city ?s)" by simp
  have h2: "\<not> slot_filled ?i ''City''" by (simp add: slot_filled_def)
  have h3: "slot_filled ?i ''Date''" by (simp add: slot_filled_def)
  from date_turn_with_stored_city_throws [OF h1 h2 h3, of example_runtime] h1 h2 h3
  show ?thesis by simp
qed

text \<open>
  Claim C5, at the inputs where the code departs from it. A one-shot turn never yields the
  re-prompt for a city: with a non-empty \<open>location\<close> slot (an unknown place such as
  "Nowhereville" too) the value counts as resolved and the turn goes on to the final
  request, which hands no directive to the response; with the slot missing or empty the
  handler throws a TypeError. The session is unchanged either way.
\<close>

theorem oneshot_never_reprompts:
  "handleOneshotUmbrellaRequest rt intent session =
     (session, if slot_filled intent ''location'' then NoResponse
               else Threw (TypeError ''Cannot read property error of undefined''))
   \<and> handleOneshotUmbrellaRequest rt
        \<lparr>slots = [''location'' \<mapsto> Slot (Some ''Nowhereville'')]\<rparr> session
      = (session, NoResponse)"
proof -
  have "handleOneshotUmbrellaRequest rt intent session =
     (session, if slot_filled intent ''location'' then NoResponse
               else Threw (TypeError ''Cannot read property error of undefined''))"
    for intent
  proof (cases "slot_filled intent ''location''")
    case True
    from getLocation_filled [OF True] obtain v where
      "v \<noteq> []" "slots intent ''location'' = Some (Slot (Some v))" by blast
    then show ?thesis using True by (simp add: handleOneshot_filled)
  next
    case False
    then show ?thesis by (simp add: handleOneshot_unfilled)
  qed
  moreover have "handleOneshotUmbrellaRequest rt
        \<lparr>slots = [''location'' \<mapsto> Slot (Some ''Nowhereville'')]\<rparr> session
      = (session, NoResponse)"
    by (simp add: handleOneshot_filled)
  ultimately show ?thesis by blast
qed

text \<open>
  Claim C7, at the inputs where the code departs from it. A Date slot whose value the
  host cannot parse gives no resolution failure: date resolution returns an object (with
  the request parameter \<open>begin_date=NaNNaNNaN&range=24\<close>), which is truthy, so the date
  branch never re-prompts for a day of the week; it throws the ReferenceError of
  \<open>getFinalTideResponse\<close> when the session has a city, and otherwise stores the object as
  the session's date and asks for a city.
\<close>

theorem unparseable_date_is_not_a_failure:
  assumes "slots intent ''Date'' = Some (Slot (Some v))"
    and "v \<noteq> []"
    and "Date_parse rt v = InvalidDate"
  shows "getDateFromIntent rt intent =
           Obj [(''displayDate'', Str (getFormattedDate rt InvalidDate)),
                (''requestDateParam'', Str ''begin_date=NaNNaNNaN&range=24'')]
         \<and> truthy (getDateFromIntent rt intent)
         \<and> handleDateDialogRequest rt intent session =
             (if truthy (city session)
              then (session, Threw (ReferenceError ''getFinalTideResponse is not defined''))
              else (session\<lparr>date := getDateFromIntent rt intent\<rparr>,
                    Responded (ask (''For which city would you like tide information for ''
                                     @ getFormattedDate rt InvalidDate @ ''?'')
                                   ''For which city?'')))"
proof -
  have g: "getDateFromIntent rt intent =
           Obj [(''displayDate'', Str (getFormattedDate rt InvalidDate)),
                (''requestDateParam'', Str ''begin_date=NaNNaNNaN&range=24'')]"
    using assms by (simp add: getDateFromIntent_def Let_def pad2_def)
  show ?thesis
    by (simp add: handleDate_result getDate_truthy) (simp add: g)
qed

theorem unparseable_date_is_not_a_failure_witness:
  "slots \<lparr>slots = [''Date'' \<mapsto> Slot (Some ''not a date'')]\<rparr> ''Date''
     = Some (Slot (Some ''not a date''))
   \<and> ''not a date'' \<noteq> []
   \<and> Date_parse example_runtime ''not a date'' = InvalidDate
   \<and> handleDateDialogRequest example_runtime \<lparr>slots = [''Date'' \<mapsto> Slot (Some ''not a date'')]\<rparr>
        \<lparr>city = Undefined, date = Undefined\<rparr>
      = (\<lparr>city = Undefined,
           date = Obj [(''displayDate'', Str ''NaN/NaN/NaN''),
                       (''requestDateParam'', Str ''begin_date=NaNNaNNaN&range=24'')]\<rparr>,
         Responded (ask ''For which city would you like tide information for NaN/NaN/NaN?''
                        ''For which city?''))"
proof -
  let ?i = "\<lparr>slots = [''Date'' \<mapsto> Slot (Some ''not a date'')]\<rparr>"
  have h1: "slots ?i ''Date'' = Some (Slot (Some ''not a date''))" by simp
  have h2: "''not a date'' \<noteq> []" by simp
  have h3: "Date_parse example_runtime ''not a date'' = InvalidDate"
    by (simp add: example_runtime_def)
  have f: "getFormattedDate example_runtime InvalidDate = ''NaN/NaN/NaN''"
    by (simp add: example_runtime_def)
  from unparseable_date_is_not_a_failure [OF h1 h2 h3, of "\<lparr>city = Undefined, date = Undefined\<rparr>"]
    h1 h3 f
  show ?thesis by simp
qed

text \<open>
  Claim C10. \<open>getLocationFromIntent\<close> reads the slot \<open>location\<close> and returns its non-empty
  value as a string, or \<open>undefined\<close>; never an object, so never one with an \<open>error\<close>
  marker. With the slot filled, \<open>.error\<close> reads as \<open>undefined\<close> and neither caller takes
  its failure branch; with the slot missing or empty, \<open>.error\<close> throws a TypeError in
  both callers, also in a dialog turn that a filled City slot sent to the city branch.
\<close>

theorem location_slot_never_error_marker:
  "(\<forall>ps. getLocationFromIntent intent b \<noteq> Obj ps)
   \<and> getLocationFromIntent intent b =
       (if slot_filled intent ''location'' then slot_and_value (slots intent ''location'')
        else Undefined)
   \<and> (slot_filled intent ''location'' \<longrightarrow>
         get_prop (getLocationFromIntent intent b) ''error'' = Inr Undefined
         \<and> handleCityDialogRequest intent session =
             (if truthy (date session)
              then (session, Threw (ReferenceError ''getFinalTideResponse is not defined''))
              else (session\<lparr>city := getLocationFromIntent intent b\<rparr>,
                    Responded (ask ''For which date?''
                      ''For which date would you like tide information for undefined?'')))
         \<and> handleOneshotUmbrellaRequest rt intent session = (session, NoResponse))
   \<and> (\<not> slot_filled intent ''location'' \<longrightarrow>
         get_prop (getLocationFromIntent intent b) ''error''
           = Inl (TypeError ''Cannot read property error of undefined'')
         \<and> handleCityDialogRequest intent session =
             (session, Threw (TypeError ''Cannot read property error of undefined''))
         \<and> handleOneshotUmbrellaRequest rt intent session =
             (session, Threw (TypeError ''Cannot read property error of undefined''))
         \<and> (slot_filled intent ''City'' \<longrightarrow>
              DialogUmbrellaIntent rt intent session =
                (session, Threw (TypeError ''Cannot read property error of undefined''))))"
proof (cases "slot_filled intent ''location''")
  case True
  then obtain v where v: "v \<noteq> []" "slots intent ''location'' = Some (Slot (Some v))"
    and g: "\<And>b. getLocationFromIntent intent b = Str v"
    using getLocation_filled [of intent] 
    by (metis option.inject slot.inject)
  show ?thesis
    using True v g
    by (simp add: handleCity_filled handleOneshot_filled slot_and_value_def value_of_def)
next
  case False
  then show ?thesis
    by (simp add: getLocation_unfilled handleCity_unfilled handleOneshot_unfilled dialog_dispatch)
qed

theorem location_slot_never_error_marker_witness:
  "slot_filled \<lparr>slots = [''location'' \<mapsto> Slot (Some ''Nowhereville'')]\<rparr> ''location''
   \<and> get_prop (getLocationFromIntent
         \<lparr>slots = [''location'' \<mapsto> Slot (Some ''Nowhereville'')]\<rparr> True) ''error''
       = Inr Undefined
   \<and> \<not> slot_filled \<lparr>slots = [''City'' \<mapsto> Slot (Some ''Seattle'')]\<rparr> ''location''
   \<and> slot_filled \<lparr>slots = [''City'' \<mapsto> Slot (Some ''Seattle'')]\<rparr> ''City''
   \<and> DialogUmbrellaIntent example_runtime \<lparr>slots = [''City'' \<mapsto> Slot (Some ''Seattle'')]\<rparr>
         \<lparr>city = Undefined, date = Undefined\<rparr>
       = (\<lparr>city = Undefined, date = Undefined\<rparr>,
          Threw (TypeError ''Cannot read property error of undefined''))"
proof -
  let ?i1 = "\<lparr>slots = [''location'' \<mapsto> Slot (Some ''Nowhereville'')]\<rparr>"
  let ?i2 = "\<lparr>slots = [''City'' \<mapsto> Slot (Some ''Seattle'')]\<rparr>"
  have h1: "slot_filled ?i1 ''location''" by (simp add: slot_filled_def)
  have h2: "\<not> slot_filled ?i2 ''location''" by (simp add: slot_filled_def)
  have h3: "slot_filled ?i2 ''City''" by (simp add: slot_filled_def)
  let ?s = "\<lparr>city = Undefined, date = Undefined\<rparr>"
  have a: "get_prop (getLocationFromIntent ?i1 True) ''error'' = Inr Undefined"
    using location_slot_never_error_marker [of ?i1 True ?s example_runtime] h1 by blast
  have b: "DialogUmbrellaIntent example_runtime ?i2 ?s
           = (?s, Threw (TypeError ''Cannot read property error of undefined''))"
    using location_slot_never_error_marker [of ?i2 False ?s example_runtime] h2 h3 by blast
  from h1 a h2 h3 b show ?thesis by blast
qed




text \<open>
  Claim C3, as the code has it. In a dialog turn with neither the City nor the Date slot
  filled, the session's city and date stay as they were; and when the session already
  holds a city, the directive is the non-terminal re-prompt for a day of the week, not a
  prompt for a city.
\<close>

theorem no_slot_turn_keeps_session:
  assumes "\<not> slot_filled intent ''City''" and "\<not> slot_filled intent ''Date''"
  shows "fst (DialogUmbrellaIntent rt intent session) = session
         \<and> (truthy (city session) \<longrightarrow>
              snd (DialogUmbrellaIntent rt intent session) =
                Responded \<lparr>speech = ''Please try again saying a day of the week, for example, Saturday. '',
                           reprompt = Some ''Please try again saying a day of the week, for example, Saturday. '',
                           card = None, shouldEndSession = False\<rparr>)"
  using assms by (simp add: dialog_dispatch handleNoSlot_result ask_def)

theorem no_slot_turn_keeps_session_witness:
  "\<not> slot_filled \<lparr>slots = [''City'' \<mapsto> Slot (Some ''''), ''Date'' \<mapsto> Slot None]\<rparr> ''City''
   \<and> \<not> slot_filled \<lparr>slots = [''City'' \<mapsto> Slot (Some ''''), ''Date'' \<mapsto> Slot None]\<rparr> ''Date''
   \<and> truthy (city \<lparr>city = Str ''London'', date = Undefined\<rparr>)
   \<and> DialogUmbrellaIntent example_runtime
        \<lparr>slots = [''City'' \<mapsto> Slot (Some ''''), ''Date'' \<mapsto> Slot None]\<rparr>
        \<lparr>city = Str ''London'', date = Undefined\<rparr>
      = (\<lparr>city = Str ''London'', date = Undefined\<rparr>,
         Responded \<lparr>speech = ''Please try again saying a day of the week, for example, Saturday. '',
                    reprompt = Some ''Please try again saying a day of the week, for example, Saturday. '',
                    card = None, shouldEndSession = False\<rparr>)"
proof -
  let ?i = "\<lparr>slots = [''City'' \<mapsto> Slot (Some ''''), ''Date'' \<mapsto> Slot None]\<rparr>"
  let ?s = "\<lparr>city = Str ''London'', date = Undefined\<rparr>"
  have h1: "\<not> slot_filled ?i ''City''" by (simp add: slot_filled_def)
  have h2: "\<not> slot_filled ?i ''Date''" by (simp add: slot_filled_def)
  have h3: "truthy (city ?s)" by simp
  from no_slot_turn_keeps_session [OF h1 h2, of example_runtime ?s] h3
  have "fst (DialogUmbrellaIntent example_runtime ?i ?s) = ?s"
    and "snd (DialogUmbrellaIntent example_runtime ?i ?s) =
           Responded \<lparr>speech = ''Please try again saying a day of the week, for example, Saturday. '',
                      reprompt = Some ''Please try again saying a day of the week, for example, Saturday. '',
                      card = None, shouldEndSession = False\<rparr>"
    by blast+
  then have "DialogUmbrellaIntent example_runtime ?i ?s =
      (?s, Responded \<lparr>speech = ''Please try again saying a day of the week, for example, Saturday. '',
                      reprompt = Some ''Please try again saying a day of the week, for example, Saturday. '',
                      card = None, shouldEndSession = False\<rparr>)"
    by (metis prod.collapse)
  with h1 h2 h3 show ?thesis by blast
qed

text \<open>
  Claim C3 as stated fails: with a city in the session and both slots without a value,
  the directive asks for a date and does not name a city.
\<close>

theorem no_slot_turn_counterexample:
  "\<not> slot_filled \<lparr>slots = [''City'' \<mapsto> Slot (Some ''''), ''Date'' \<mapsto> Slot None]\<rparr> ''City''
   \<and> \<not> slot_filled \<lparr>slots = [''City'' \<mapsto> Slot (Some ''''), ''Date'' \<mapsto> Slot None]\<rparr> ''Date''
   \<and> DialogUmbrellaIntent example_runtime
        \<lparr>slots = [''City'' \<mapsto> Slot (Some ''''), ''Date'' \<mapsto> Slot None]\<rparr>
        \<lparr>city = Str ''London'', date = Undefined\<rparr>
      = (\<lparr>city = Str ''London'', date = Undefined\<rparr>,
         Responded (ask ''Please try again saying a day of the week, for example, Saturday. ''
                        ''Please try again saying a day of the week, for example, Saturday. ''))
   \<and> \<not> asks_for_city
         (ask ''Please try again saying a day of the week, for example, Saturday. ''
              ''Please try again saying a day of the week, for example, Saturday. '')"
proof -
  let ?i = "\<lparr>slots = [''City'' \<mapsto> Slot (Some ''''), ''Date'' \<mapsto> Slot None]\<rparr>"
  let ?s = "\<lparr>city = Str ''London'', date = Undefined\<rparr>"
  have h1: "\<not> slot_filled ?i ''City''" by (simp add: slot_filled_def)
  have h2: "\<not> slot_filled ?i ''Date''" by (simp add: slot_filled_def)
  have r: "DialogUmbrellaIntent example_runtime ?i ?s =
          (?s, Responded (ask ''Please try again saying a day of the week, for example, Saturday. ''
                         ''Please try again saying a day of the week, for example, Saturday. ''))"
    using h1 h2 by (simp add: dialog_dispatch handleNoSlot_result)
  have n: "\<not> asks_for_city
     (ask ''Please try again saying a day of the week, for example, Saturday. ''
          ''Please try again saying a day of the week, for example, Saturday. '')"
    by (simp add: asks_for_city_def ask_def)
  from h1 h2 r n show ?thesis by blast
qed

end
